theory Spec2Isabelle
  imports Complex_Main "HOL-Library.Word"
begin

section \<open>The dashboard scripts of plant\_ml\<close>

text \<open>
  The repository consists of two browser scripts: \<^verbatim>\<open>static/js/dashboard.js\<close> (plant
  selection, camera capture, disease detection, crop recommendation) and a weather script
  (\<^verbatim>\<open>getUserLocation\<close>, \<^verbatim>\<open>getWeather\<close>, \<^verbatim>\<open>displayWeather\<close>). Both are sequences of
  reads and writes on the page, on three module variables and on the network. The embedding
  makes the page, the module variables and the observable effects one explicit state, and
  every event handler a function from states to a completion and a new state.
\<close>

subsection \<open>Strings\<close>

text \<open>
  A JavaScript string is a sequence of 16-bit code units. Regular expressions without the
  \<^verbatim>\<open>u\<close> flag, \<^verbatim>\<open>trim\<close> and \<^verbatim>\<open>===\<close> all work on code units, so that is what a string is
  here. \<open>js\<close> embeds an ASCII literal; characters outside ASCII are written as code units.
\<close>

type_synonym jschar = "16 word"
type_synonym jsstring = "jschar list"

definition js :: "string \<Rightarrow> jsstring" where
  "js s = map of_char s"

text \<open>The line terminators and the white space of ECMAScript (used by \<^verbatim>\<open>.\<close>, \<^verbatim>\<open>\s\<close> and
  \<^verbatim>\<open>trim\<close>).\<close>

definition lineTerminator :: "jschar \<Rightarrow> bool" where
  "lineTerminator c = (c = 0x0A \<or> c = 0x0D \<or> c = 0x2028 \<or> c = 0x2029)"

definition whiteSpace :: "jschar \<Rightarrow> bool" where
  "whiteSpace c =
     (c = 0x09 \<or> c = 0x0B \<or> c = 0x0C \<or> c = 0x20 \<or> c = 0xA0 \<or> c = 0x1680
      \<or> (0x2000 \<le> c \<and> c \<le> 0x200A) \<or> c = 0x202F \<or> c = 0x205F \<or> c = 0x3000
      \<or> c = 0xFEFF \<or> lineTerminator c)"

definition digit :: "jschar \<Rightarrow> bool" where
  "digit c = (0x30 \<le> c \<and> c \<le> 0x39)"

text \<open>\<^verbatim>\<open>String.prototype.trim\<close>.\<close>

definition trim :: "jsstring \<Rightarrow> jsstring" where
  "trim s = rev (dropWhile whiteSpace (rev (dropWhile whiteSpace s)))"

text \<open>The decimal digits of a non-negative integer, as a template literal prints an integer
  below \<open>2\<^sup>5\<^sup>3\<close> (the clock \<^verbatim>\<open>Date.now()\<close> is one).\<close>

fun decimal :: "nat \<Rightarrow> jsstring" where
  "decimal n = (if n < 10 then [of_nat (48 + n)]
                else decimal (n div 10) @ [of_nat (48 + n mod 10)])"

declare decimal.simps [simp del]

subsection \<open>Values\<close>

text \<open>
  A number is a double: not-a-number, an infinity, or a finite value, kept as the exact
  rational it denotes. Comparison of doubles is comparison of these values. The values that
  reach the scripts are parsed JSON: primitives, arrays and objects (an object is read only
  at property names written in the source, so it is a function from names to values, with
  \<open>Undefined\<close> for an absent property).
\<close>

datatype number = NaN | NegInf | Fin rat | PosInf

datatype jsvalue =
    Undefined
  | Null
  | Boolean bool
  | Number number
  | String jsstring
  | Array "jsvalue list"
  | Object "string \<Rightarrow> jsvalue"

text \<open>
  What the platform computes and the scripts only call: the conversion of a string to a
  number, the digits of a number that is no integer below \<open>2\<^sup>5\<^sup>3\<close> (the shortest digits that
  read back as the same double), \<^verbatim>\<open>(x * 100).toFixed(2)\<close>,
  and \<^verbatim>\<open>encodeURIComponent\<close> (which throws on a lone surrogate: \<open>None\<close>). The handlers
  take them as a parameter.
\<close>

record platform =
  stringToNumber :: "jsstring \<Rightarrow> number"
  shortestDigits :: "rat \<Rightarrow> jsstring"
  timesHundredToFixed2 :: "number \<Rightarrow> jsstring"
  encodeURIComponent :: "jsstring \<Rightarrow> jsstring option"

text \<open>The truthiness of a value (\<^verbatim>\<open>if (v)\<close>, \<^verbatim>\<open>v || w\<close>).\<close>

fun truthy :: "jsvalue \<Rightarrow> bool" where
  "truthy Undefined = False"
| "truthy Null = False"
| "truthy (Boolean b) = b"
| "truthy (Number n) = (n \<noteq> NaN \<and> n \<noteq> Fin 0)"
| "truthy (String s) = (s \<noteq> [])"
| "truthy (Array xs) = True"
| "truthy (Object f) = True"

text \<open>\<^verbatim>\<open>Number::toString\<close>. Every integer below \<open>2\<^sup>5\<^sup>3\<close> is a double of its own, so its
  shortest digits are its digits; from \<open>2\<^sup>5\<^sup>3\<close> on, and for fractions, the digits are the
  platform's.\<close>

definition numberToString :: "platform \<Rightarrow> number \<Rightarrow> jsstring" where
  "numberToString P n =
     (case n of
        NaN \<Rightarrow> js ''NaN''
      | PosInf \<Rightarrow> js ''Infinity''
      | NegInf \<Rightarrow> js ''-Infinity''
      | Fin q \<Rightarrow>
          if q = of_int \<lfloor>q\<rfloor> \<and> \<bar>q\<bar> < 2 ^ 53
          then (if q < 0 then js ''-'' else []) @ decimal (nat \<bar>\<lfloor>q\<rfloor>\<bar>)
          else shortestDigits P q)"

fun joinWith :: "jsstring \<Rightarrow> jsstring list \<Rightarrow> jsstring" where
  "joinWith sep [] = []"
| "joinWith sep [x] = x"
| "joinWith sep (x # y # ys) = x @ sep @ joinWith sep (y # ys)"

text \<open>\<^verbatim>\<open>ToString\<close>, as a template literal applies it. An array prints its elements joined by
  commas, \<^verbatim>\<open>null\<close> and \<^verbatim>\<open>undefined\<close> elements as nothing.\<close>

fun toString :: "platform \<Rightarrow> jsvalue \<Rightarrow> jsstring" where
  "toString P Undefined = js ''undefined''"
| "toString P Null = js ''null''"
| "toString P (Boolean b) = (if b then js ''true'' else js ''false'')"
| "toString P (Number n) = numberToString P n"
| "toString P (String s) = s"
| "toString P (Array xs) =
     joinWith (js '','')
       (map (\<lambda>x. case x of Undefined \<Rightarrow> [] | Null \<Rightarrow> [] | _ \<Rightarrow> toString P x) xs)"
| "toString P (Object f) = js ''[object Object]''"

text \<open>\<^verbatim>\<open>ToNumber\<close>, as \<^verbatim>\<open>>\<close> and \<^verbatim>\<open>*\<close> apply it.\<close>

definition toNumber :: "platform \<Rightarrow> jsvalue \<Rightarrow> number" where
  "toNumber P v =
     (case v of
        Undefined \<Rightarrow> NaN
      | Null \<Rightarrow> Fin 0
      | Boolean b \<Rightarrow> (if b then Fin 1 else Fin 0)
      | Number n \<Rightarrow> n
      | String s \<Rightarrow> stringToNumber P s
      | Array xs \<Rightarrow> stringToNumber P (toString P (Array xs))
      | Object f \<Rightarrow> NaN)"

text \<open>\<open>greater a b\<close> is \<^verbatim>\<open>a > b\<close> on numbers: false as soon as one side is not a number.\<close>

fun greater :: "number \<Rightarrow> number \<Rightarrow> bool" where
  "greater NaN b = False"
| "greater a NaN = False"
| "greater NegInf b = False"
| "greater PosInf b = (b \<noteq> PosInf)"
| "greater (Fin x) NegInf = True"
| "greater (Fin x) PosInf = False"
| "greater (Fin x) (Fin y) = (y < x)"

text \<open>The literal \<^verbatim>\<open>0.8\<close> of the source is the double nearest to 4/5, which is
  \<open>3602879701896397 / 2\<^sup>5\<^sup>2\<close>. A response whose confidence reads \<^verbatim>\<open>0.8\<close> parses to the
  same double.\<close>

definition literal_0_8 :: rat where
  "literal_0_8 = 3602879701896397 / 4503599627370496"

text \<open>Property access \<^verbatim>\<open>v.name\<close>: a \<^verbatim>\<open>TypeError\<close> (\<open>None\<close>) on \<^verbatim>\<open>undefined\<close> and
  \<^verbatim>\<open>null\<close>; the names read by the scripts are no properties of a primitive or an array.\<close>

definition getProp :: "jsvalue \<Rightarrow> string \<Rightarrow> jsvalue option" where
  "getProp v name =
     (case v of
        Undefined \<Rightarrow> None
      | Null \<Rightarrow> None
      | Object f \<Rightarrow> Some (f name)
      | _ \<Rightarrow> Some Undefined)"

text \<open>Index access \<^verbatim>\<open>v[0]\<close>.\<close>

definition getIndex0 :: "jsvalue \<Rightarrow> jsvalue option" where
  "getIndex0 v =
     (case v of
        Undefined \<Rightarrow> None
      | Null \<Rightarrow> None
      | Array xs \<Rightarrow> Some (case xs of [] \<Rightarrow> Undefined | x # _ \<Rightarrow> x)
      | String s \<Rightarrow> Some (case s of [] \<Rightarrow> Undefined | c # _ \<Rightarrow> String [c])
      | Object f \<Rightarrow> Some (f ''0'')
      | _ \<Rightarrow> Some Undefined)"

subsection \<open>Regular expressions\<close>

text \<open>
  The scripts format text with \<^verbatim>\<open>String.prototype.replace\<close> and global regular
  expressions. The expressions are kept as syntax trees and run by a backtracking matcher
  that follows ECMAScript: the results of a match are listed in the order in which
  backtracking tries them, a greedy star prefers one more iteration, a lazy star prefers to
  stop, an iteration that consumes nothing is rejected, and a group remembers what its last
  iteration consumed. A matcher state is the capture of group 1 and the input left.
\<close>

datatype regex =
    Empty
  | Unit "jschar \<Rightarrow> bool"
  | Seq regex regex
  | Star bool regex
  | Group regex

type_synonym mstate = "jsstring option \<times> jsstring"

function (sequential) rmatch :: "regex \<Rightarrow> mstate \<Rightarrow> mstate list" where
  "rmatch Empty st = [st]"
| "rmatch (Unit p) (cap, s) =
     (case s of [] \<Rightarrow> [] | x # xs \<Rightarrow> if p x then [(cap, xs)] else [])"
| "rmatch (Seq a b) st = concat (map (rmatch b) (rmatch a st))"
| "rmatch (Group a) (cap, s) =
     map (\<lambda>(cap', r). (Some (take (length s - length r) s), r)) (rmatch a (cap, s))"
| "rmatch (Star greedy a) (cap, s) =
     (let more = concat (map (rmatch (Star greedy a))
                   (filter (\<lambda>(cap', r). length r < length s) (rmatch a (cap, s))))
      in if greedy then more @ [(cap, s)] else (cap, s) # more)"
  by pat_completeness auto
termination
  by (relation "measures [\<lambda>(r, st). size r, \<lambda>(r, st). length (snd st)]") auto

declare rmatch.simps(5) [simp del]

text \<open>A literal piece of a pattern, \<^verbatim>\<open>a+\<close>, and the character classes.\<close>

definition lit :: "string \<Rightarrow> regex" where
  "lit s = foldr (\<lambda>c r. Seq (Unit (\<lambda>x. x = of_char c)) r) s Empty"

definition plus :: "regex \<Rightarrow> regex" where
  "plus a = Seq a (Star True a)"

definition dot :: regex where
  "dot = Unit (\<lambda>c. \<not> lineTerminator c)"

text \<open>A replacement string is text and references \<^verbatim>\<open>$1\<close>; a group that took no part in
  the match is replaced by nothing.\<close>

datatype piece = Text jsstring | Group1

fun subst :: "piece list \<Rightarrow> jsstring option \<Rightarrow> jsstring" where
  "subst [] cap = []"
| "subst (Text t # ps) cap = t @ subst ps cap"
| "subst (Group1 # ps) cap = (case cap of None \<Rightarrow> [] | Some c \<Rightarrow> c) @ subst ps cap"

text \<open>
  \<^verbatim>\<open>s.replace(/rx/g, rep)\<close>: the leftmost match is found by trying every start position in
  turn, the search goes on behind the match, and behind an empty match one code unit is
  copied.
\<close>

function replaceAll :: "regex \<Rightarrow> piece list \<Rightarrow> jsstring \<Rightarrow> jsstring" where
  "replaceAll rx rep s =
     (case rmatch rx (None, s) of
        (cap, r) # _ \<Rightarrow>
          if length r < length s then subst rep cap @ replaceAll rx rep r
          else subst rep cap @ (case s of [] \<Rightarrow> [] | x # xs \<Rightarrow> x # replaceAll rx rep xs)
      | [] \<Rightarrow> (case s of [] \<Rightarrow> [] | x # xs \<Rightarrow> x # replaceAll rx rep xs))"
  by pat_completeness auto
termination
  by (relation "measure (\<lambda>(rx, rep, s). length s)") auto

declare replaceAll.simps [simp del]

subsection \<open>The two formatters\<close>

text \<open>
  \<^verbatim>\<open>
  function formatDiseaseInfo(info) {
      let formatted = info.replace(/\n/g, '<br>');
      formatted = formatted.replace(/\*\*(.*?)\*\*/g, '<strong>$1</strong>');
      formatted = formatted.replace(/- (.*?)<br>/g, '<li>$1</li>');
      formatted = formatted.replace(/(<li>.*<\/li>)+/g, '<ul>$1</ul>');
      return formatted;
  }
  \<close>
\<close>

definition formatDiseaseInfo :: "jsstring \<Rightarrow> jsstring" where
  "formatDiseaseInfo info =
     (let formatted = replaceAll (lit [CHR 0x0A]) [Text (js ''<br>'')] info;
          formatted = replaceAll (Seq (lit ''**'') (Seq (Group (Star False dot)) (lit ''**'')))
                        [Text (js ''<strong>''), Group1, Text (js ''</strong>'')] formatted;
          formatted = replaceAll (Seq (lit ''- '') (Seq (Group (Star False dot)) (lit ''<br>'')))
                        [Text (js ''<li>''), Group1, Text (js ''</li>'')] formatted;
          formatted = replaceAll
                        (plus (Group (Seq (lit ''<li>'') (Seq (Star True dot) (lit ''</li>'')))))
                        [Text (js ''<ul>''), Group1, Text (js ''</ul>'')] formatted
      in formatted)"

text \<open>
  \<^verbatim>\<open>
  function formatCropRecommendations(text) {
      let formatted = text;
      formatted = formatted.replace(/\n\n/g, '<br><br>');
      formatted = formatted.replace(/\n/g, '<br>');
      formatted = formatted.replace(/(\d+\.\s+)/g, '<strong>$1</strong>');
      return `<div style="line-height: 1.8;">${formatted}</div>`;
  }
  \<close>
\<close>

definition formatCropRecommendations :: "jsstring \<Rightarrow> jsstring" where
  "formatCropRecommendations text =
     (let formatted = text;
          formatted = replaceAll (lit [CHR 0x0A, CHR 0x0A]) [Text (js ''<br><br>'')] formatted;
          formatted = replaceAll (lit [CHR 0x0A]) [Text (js ''<br>'')] formatted;
          formatted = replaceAll
                        (Group (Seq (plus (Unit digit)) (Seq (lit ''.'') (plus (Unit whiteSpace)))))
                        [Text (js ''<strong>''), Group1, Text (js ''</strong>'')] formatted
      in js ''<div style=\"line-height: 1.8;\">'' @ formatted @ js ''</div>'')"

subsection \<open>The page, the module variables and the effects\<close>

text \<open>
  An element carries the properties the scripts read or write. \<open>classList\<close> is the list of
  class names; \<open>srcObject\<close> is the stream shown by a video element, a stream being the list
  of its tracks.
\<close>

type_synonym track = nat

record element =
  "value" :: jsstring
  disabled :: bool
  innerHTML :: jsstring
  textContent :: jsstring
  display :: jsstring
  opacity :: jsstring
  pointerEvents :: jsstring
  classList :: "jsstring list"
  srcObject :: "track list option"
  width :: nat
  height :: nat
  videoWidth :: nat
  videoHeight :: nat

text \<open>\<^verbatim>\<open>new File([blob], fileName, { type: 'image/jpeg' })\<close>; \<^verbatim>\<open>toBlob\<close> hands its callback
  the encoded frame, or \<^verbatim>\<open>null\<close> when the canvas cannot be encoded.\<close>

type_synonym blob = "8 word list"

record jsfile =
  fileName :: jsstring
  fileType :: jsstring
  fileBits :: "blob option"

text \<open>What a handler does to the outside: an alert, a request sent with \<^verbatim>\<open>fetch\<close> (method,
  URL, form fields), a line on the console.\<close>

datatype http_method = GET | POST

datatype formvalue = FileEntry jsfile | TextEntry jsstring

datatype event =
    Alert jsstring
  | Fetch http_method jsstring "(jsstring \<times> formvalue) list"
  | ConsoleError jsstring

text \<open>
  The state: the three module variables of \<^verbatim>\<open>dashboard.js\<close> (\<^verbatim>\<open>null\<close> is \<open>None\<close>), the
  document as \<^verbatim>\<open>getElementById\<close> sees it (\<open>None\<close> where the page has no such element),
  the guide overlay that \<^verbatim>\<open>startCamera\<close> appends when the page has none (its text, if it
  is in the document), the camera tracks that have been stopped, and the effects so far.
\<close>

record state =
  selectedImage :: "jsfile option"
  selectedPlant :: "jsstring option"
  cameraStream :: "track list option"
  elements :: "string \<Rightarrow> element option"
  guideText :: "jsstring option"
  endedTracks :: "track set"
  events :: "event list"

text \<open>
  A handler either completes or throws; what it wrote before throwing stays written, so the
  state is returned in both cases. For an \<^verbatim>\<open>async\<close> handler, \<open>Throw\<close> is a rejected promise.
  A handler runs without another handler running at its \<^verbatim>\<open>await\<close>s.
\<close>

datatype completion = Normal | Throw

type_synonym handler = "state \<Rightarrow> completion \<times> state"

text \<open>A write to a property of \<^verbatim>\<open>document.getElementById(i)\<close>: a \<^verbatim>\<open>TypeError\<close> when the
  page has no such element.\<close>

definition update :: "string \<Rightarrow> (element \<Rightarrow> element) \<Rightarrow> handler" where
  "update i f s =
     (case elements s i of
        None \<Rightarrow> (Throw, s)
      | Some e \<Rightarrow> (Normal, s\<lparr>elements := (elements s)(i \<mapsto> f e)\<rparr>))"

text \<open>The same behind \<^verbatim>\<open>if (element)\<close>.\<close>

definition updateIfPresent :: "string \<Rightarrow> (element \<Rightarrow> element) \<Rightarrow> handler" where
  "updateIfPresent i f s =
     (case elements s i of
        None \<Rightarrow> (Normal, s)
      | Some e \<Rightarrow> (Normal, s\<lparr>elements := (elements s)(i \<mapsto> f e)\<rparr>))"

definition assign :: "(state \<Rightarrow> state) \<Rightarrow> handler" where
  "assign f s = (Normal, f s)"

definition effect :: "event \<Rightarrow> state \<Rightarrow> state" where
  "effect e s = s\<lparr>events := events s @ [e]\<rparr>"

text \<open>Statements in sequence: the first that throws ends the sequence.\<close>

fun steps :: "handler list \<Rightarrow> handler" where
  "steps [] s = (Normal, s)"
| "steps (h # hs) s = (case h s of (Normal, s') \<Rightarrow> steps hs s' | (Throw, s') \<Rightarrow> (Throw, s'))"

text \<open>\<^verbatim>\<open>try { body } catch (error) { handler }\<close>.\<close>

definition tryCatch :: "handler \<Rightarrow> handler \<Rightarrow> handler" where
  "tryCatch body handler s =
     (case body s of (Normal, s') \<Rightarrow> (Normal, s') | (Throw, s') \<Rightarrow> handler s')"

text \<open>\<^verbatim>\<open>classList.add\<close> and \<^verbatim>\<open>classList.remove\<close>.\<close>

definition addClass :: "jsstring \<Rightarrow> element \<Rightarrow> element" where
  "addClass c e = e\<lparr>classList := (if c \<in> set (classList e) then classList e else classList e @ [c])\<rparr>"

definition removeClass :: "jsstring \<Rightarrow> element \<Rightarrow> element" where
  "removeClass c e = e\<lparr>classList := removeAll c (classList e)\<rparr>"

text \<open>The module variable \<^verbatim>\<open>selectedPlant\<close> in a condition and in a template literal.\<close>

definition truthyPlant :: "jsstring option \<Rightarrow> bool" where
  "truthyPlant p = (case p of None \<Rightarrow> False | Some s \<Rightarrow> s \<noteq> [])"

definition plantText :: "jsstring option \<Rightarrow> jsstring" where
  "plantText p = (case p of None \<Rightarrow> js ''null'' | Some s \<Rightarrow> s)"

text \<open>A value assigned to the \<^verbatim>\<open>value\<close> of an input: \<^verbatim>\<open>null\<close> becomes the empty string,
  anything else its string.\<close>

definition domString :: "platform \<Rightarrow> jsvalue \<Rightarrow> jsstring" where
  "domString P v = (case v of Null \<Rightarrow> [] | _ \<Rightarrow> toString P v)"

text \<open>A property of a value already known not to be \<^verbatim>\<open>undefined\<close> or \<^verbatim>\<open>null\<close>.\<close>

definition property :: "jsvalue \<Rightarrow> string \<Rightarrow> jsvalue" where
  "property v name = (case getProp v name of None \<Rightarrow> Undefined | Some x \<Rightarrow> x)"

text \<open>What \<^verbatim>\<open>await fetch(...)\<close> followed by \<^verbatim>\<open>await response.json()\<close> yields: \<^verbatim>\<open>fetch\<close>
  rejects, the body is no JSON, or the parsed body.\<close>

datatype response = NetworkError | BadJson | Json jsvalue

subsection \<open>Plant selection\<close>

text \<open>
  \<^verbatim>\<open>
  function plantSelected() {
      const plantSelect = document.getElementById('plantSelect');
      selectedPlant = plantSelect.value;
      ...
      if (selectedPlant) {
          imageUploadSection.style.opacity = '1';
          imageUploadSection.style.pointerEvents = 'auto';
          imageInput.disabled = false;
          selectedPlantInfo.style.display = 'block';
          selectedPlantInfo.innerHTML = `...`;
          step1.classList.add('completed');
          step2.classList.add('active');
          document.getElementById('resultDisplay').innerHTML = '';
          document.getElementById('imagePreview').innerHTML = '';
          selectedImage = null;
          document.getElementById('detectBtn').disabled = true;
      } else {
          imageUploadSection.style.opacity = '0.5';
          imageUploadSection.style.pointerEvents = 'none';
          imageInput.disabled = true;
          selectedPlantInfo.style.display = 'none';
          step1.classList.remove('completed');
          step2.classList.remove('active');
      }
  }
  \<close>
\<close>

definition selectedPlantInfoHTML :: "jsstring \<Rightarrow> jsstring" where
  "selectedPlantInfoHTML plant =
       [0x0A] @
       js ''            <strong>'' @ [0x2713] @ js '' Selected Plant:</strong> '' @ plant @ js ''<br>'' @ [0x0A] @
       js ''            <small>Please upload or capture a clear image of a '' @ plant @ js '' leaf.</small>'' @ [0x0A] @
       js ''        ''"

definition plantSelected :: handler where
  "plantSelected s =
     (case elements s ''plantSelect'' of
        None \<Rightarrow> (Throw, s)
      | Some plantSelect \<Rightarrow>
          let plant = value plantSelect in
          steps
            (assign (\<lambda>s. s\<lparr>selectedPlant := Some plant\<rparr>) #
             (if plant \<noteq> [] then
                [update ''imageUploadSection'' (\<lambda>e. e\<lparr>opacity := js ''1''\<rparr>),
                 update ''imageUploadSection'' (\<lambda>e. e\<lparr>pointerEvents := js ''auto''\<rparr>),
                 update ''imageInput'' (\<lambda>e. e\<lparr>disabled := False\<rparr>),
                 update ''selectedPlantInfo'' (\<lambda>e. e\<lparr>display := js ''block''\<rparr>),
                 update ''selectedPlantInfo'' (\<lambda>e. e\<lparr>innerHTML := selectedPlantInfoHTML plant\<rparr>),
                 update ''step1-indicator'' (addClass (js ''completed'')),
                 update ''step2-indicator'' (addClass (js ''active'')),
                 update ''resultDisplay'' (\<lambda>e. e\<lparr>innerHTML := []\<rparr>),
                 update ''imagePreview'' (\<lambda>e. e\<lparr>innerHTML := []\<rparr>),
                 assign (\<lambda>s. s\<lparr>selectedImage := None\<rparr>),
                 update ''detectBtn'' (\<lambda>e. e\<lparr>disabled := True\<rparr>)]
              else
                [update ''imageUploadSection'' (\<lambda>e. e\<lparr>opacity := js ''0.5''\<rparr>),
                 update ''imageUploadSection'' (\<lambda>e. e\<lparr>pointerEvents := js ''none''\<rparr>),
                 update ''imageInput'' (\<lambda>e. e\<lparr>disabled := True\<rparr>),
                 update ''selectedPlantInfo'' (\<lambda>e. e\<lparr>display := js ''none''\<rparr>),
                 update ''step1-indicator'' (removeClass (js ''completed'')),
                 update ''step2-indicator'' (removeClass (js ''active''))])) s)"

subsection \<open>The camera\<close>

text \<open>
  \<^verbatim>\<open>
  function stopCamera() {
      if (cameraStream) {
          cameraStream.getTracks().forEach(track => track.stop());
          cameraStream = null;
      }
      const video = document.getElementById('cameraVideo');
      video.srcObject = null;
      ...
      if (startBtn) startBtn.style.display = 'inline-block';
      if (captureBtn) captureBtn.style.display = 'none';
      if (stopBtn) stopBtn.style.display = 'none';
      const guideText = document.querySelector('.camera-guide-text');
      if (guideText) guideText.remove();
  }
  \<close>
\<close>

definition stopCamera :: handler where
  "stopCamera s =
     steps
       [assign (\<lambda>s. case cameraStream s of
                       None \<Rightarrow> s
                     | Some tracks \<Rightarrow>
                         s\<lparr>endedTracks := endedTracks s \<union> set tracks, cameraStream := None\<rparr>),
        update ''cameraVideo'' (\<lambda>e. e\<lparr>srcObject := None\<rparr>),
        updateIfPresent ''startCameraBtn'' (\<lambda>e. e\<lparr>display := js ''inline-block''\<rparr>),
        updateIfPresent ''captureBtn'' (\<lambda>e. e\<lparr>display := js ''none''\<rparr>),
        updateIfPresent ''stopCameraBtn'' (\<lambda>e. e\<lparr>display := js ''none''\<rparr>),
        assign (\<lambda>s. s\<lparr>guideText := None\<rparr>)] s"

text \<open>
  \<^verbatim>\<open>captureImage\<close> sizes the canvas to the video, draws the frame and asks for its JPEG
  encoding; the pixels are not part of the state. The rest of the handler is the callback
  of \<^verbatim>\<open>toBlob\<close>, which runs later, with the encoded frame, the clock and the data URL of
  the canvas:
  \<^verbatim>\<open>
  canvas.toBlob((blob) => {
      const fileName = `${selectedPlant}_${Date.now()}.jpg`;
      selectedImage = new File([blob], fileName, { type: 'image/jpeg' });
      const previewDiv = document.getElementById('imagePreview');
      previewDiv.innerHTML = `...`;
      document.getElementById('detectBtn').disabled = false;
      ...
      step2.classList.add('completed');
      step3.classList.add('active');
      stopCamera();
  }, 'image/jpeg', 0.95);
  \<close>
\<close>

definition captureImage :: handler where
  "captureImage s =
     (case elements s ''cameraCanvas'' of
        None \<Rightarrow> (Throw, s)
      | Some canvas \<Rightarrow>
          (case elements s ''cameraVideo'' of
             None \<Rightarrow> (Throw, s)
           | Some video \<Rightarrow>
               steps
                 [update ''cameraCanvas'' (\<lambda>e. e\<lparr>width := videoWidth video\<rparr>),
                  update ''cameraCanvas'' (\<lambda>e. e\<lparr>height := videoHeight video\<rparr>)] s))"

definition previewHTML :: "jsstring \<Rightarrow> jsstring \<Rightarrow> jsstring" where
  "previewHTML dataURL plant =
       [0x0A] @
       js ''            <div class=\"preview-container\">'' @ [0x0A] @
       js ''                <img src=\"'' @ dataURL @ js ''\" alt=\"Captured Image\">'' @ [0x0A] @
       js ''                <p class=\"preview-label\">'' @ [0x2705] @ js '' Captured: '' @ plant @ js '' leaf image</p>'' @ [0x0A] @
       js ''            </div>'' @ [0x0A] @
       js ''        ''"

definition captureImage_toBlob :: "blob option \<Rightarrow> nat \<Rightarrow> jsstring \<Rightarrow> handler" where
  "captureImage_toBlob blob now dataURL s =
     (let fileName = plantText (selectedPlant s) @ js ''_'' @ decimal now @ js ''.jpg''
      in steps
           [assign (\<lambda>s. s\<lparr>selectedImage :=
                      Some \<lparr>fileName = fileName, fileType = js ''image/jpeg'', fileBits = blob\<rparr>\<rparr>),
            update ''imagePreview''
              (\<lambda>e. e\<lparr>innerHTML := previewHTML dataURL (plantText (selectedPlant s))\<rparr>),
            update ''detectBtn'' (\<lambda>e. e\<lparr>disabled := False\<rparr>),
            update ''step2-indicator'' (addClass (js ''completed'')),
            update ''step3-indicator'' (addClass (js ''active'')),
            stopCamera] s)"

subsection \<open>Disease detection\<close>

text \<open>
  The markup of a successful result:
  \<^verbatim>\<open>
  let resultHTML = '<div class="result-success">';
  resultHTML += '<h3>... Analysis Complete</h3>';
  resultHTML += `<div class="plant-info">
      <strong>... Plant:</strong> ${data.plant_name || selectedPlant}
  </div>`;
  if (data.method === 'model') {
      resultHTML += `
          <div class="confidence-badge ${data.confidence > 0.8 ? 'high-confidence' : 'medium-confidence'}">
              <strong>Confidence:</strong> ${(data.confidence * 100).toFixed(2)}%
          </div>
          <div class="disease-name">
              <strong>... Disease:</strong> ${data.disease_name}
          </div>
      `;
  } else {
      resultHTML += '<div class="ai-badge">... Analyzed by Gemini AI</div>';
  }
  resultHTML += `
      <div class="disease-info-content">
          ${formatDiseaseInfo(data.disease_info)}
      </div>
  </div>`;
  \<close>
\<close>

definition plantInfoHTML :: "jsstring \<Rightarrow> jsstring" where
  "plantInfoHTML plantName =
       js ''<div class=\"plant-info\">'' @ [0x0A] @
       js ''                <strong>'' @ [0xD83C, 0xDF3F] @ js '' Plant:</strong> '' @ plantName @ [0x0A] @
       js ''            </div>''"

definition modelHTML :: "jsstring \<Rightarrow> jsstring \<Rightarrow> jsstring \<Rightarrow> jsstring" where
  "modelHTML badge percent diseaseName =
       [0x0A] @
       js ''                    <div class=\"confidence-badge '' @ badge @ js ''\">'' @ [0x0A] @
       js ''                        <strong>Confidence:</strong> '' @ percent @ js ''%'' @ [0x0A] @
       js ''                    </div>'' @ [0x0A] @
       js ''                    <div class=\"disease-name\">'' @ [0x0A] @
       js ''                        <strong>'' @ [0xD83E, 0xDDA0] @ js '' Disease:</strong> '' @ diseaseName @ [0x0A] @
       js ''                    </div>'' @ [0x0A] @
       js ''                ''"

definition aiBadgeHTML :: jsstring where
  "aiBadgeHTML =
       js ''<div class=\"ai-badge\">'' @ [0xD83D, 0xDCCA] @ js '' Analyzed by Gemini AI</div>''"

definition diseaseInfoHTML :: "jsstring \<Rightarrow> jsstring" where
  "diseaseInfoHTML info =
       [0x0A] @
       js ''                <div class=\"disease-info-content\">'' @ [0x0A] @
       js ''                    '' @ info @ [0x0A] @
       js ''                </div>'' @ [0x0A] @
       js ''            </div>''"

definition resultHTML :: "platform \<Rightarrow> jsvalue \<Rightarrow> jsstring \<Rightarrow> jsstring \<Rightarrow> jsstring" where
  "resultHTML P data plant info =
     js ''<div class=\"result-success\">'' @
     js ''<h3>'' @ [0x2705] @ js '' Analysis Complete</h3>'' @
     plantInfoHTML
       (if truthy (property data ''plant_name'') then toString P (property data ''plant_name'')
        else plant) @
     (if (case property data ''method'' of String m \<Rightarrow> m = js ''model'' | _ \<Rightarrow> False) then
        modelHTML
          (if greater (toNumber P (property data ''confidence'')) (Fin literal_0_8)
           then js ''high-confidence'' else js ''medium-confidence'')
          (timesHundredToFixed2 P (toNumber P (property data ''confidence'')))
          (toString P (property data ''disease_name''))
      else aiBadgeHTML) @
     diseaseInfoHTML info"

definition resultErrorHTML :: "jsstring \<Rightarrow> jsstring \<Rightarrow> jsstring" where
  "resultErrorHTML message plant =
       [0x0A] @
       js ''                <div class=\"result-error\">'' @ [0x0A] @
       js ''                    <h3>'' @ [0x26A0, 0xFE0F] @ js '' '' @ message @ js ''</h3>'' @ [0x0A] @
       js ''                    <p>Please try again with a clear image of a '' @ plant @ js '' leaf.</p>'' @ [0x0A] @
       js ''                </div>'' @ [0x0A] @
       js ''            ''"

definition detectionFailedHTML :: jsstring where
  "detectionFailedHTML =
       [0x0A] @
       js ''            <div class=\"result-error\">'' @ [0x0A] @
       js ''                <h3>'' @ [0x274C] @ js '' Error</h3>'' @ [0x0A] @
       js ''                <p>Failed to detect disease. Please try again.</p>'' @ [0x0A] @
       js ''            </div>'' @ [0x0A] @
       js ''        ''"

text \<open>
  The branch \<^verbatim>\<open>if (data.success) { ... }\<close>: the markup is built first, and
  \<^verbatim>\<open>formatDiseaseInfo\<close> throws a \<^verbatim>\<open>TypeError\<close> when \<^verbatim>\<open>data.disease_info\<close> is no string (it
  has no method \<^verbatim>\<open>replace\<close>).
\<close>

definition showResult :: "platform \<Rightarrow> jsvalue \<Rightarrow> handler" where
  "showResult P data s =
     (case property data ''disease_info'' of
        String info \<Rightarrow>
          steps
            [update ''resultDisplay''
               (\<lambda>e. e\<lparr>innerHTML :=
                  resultHTML P data (plantText (selectedPlant s)) (formatDiseaseInfo info)\<rparr>),
             update ''step3-indicator'' (addClass (js ''completed''))] s
      | _ \<Rightarrow> (Throw, s))"

text \<open>
  \<^verbatim>\<open>
  async function detectDisease() {
      if (!selectedPlant) { alert('... Please select a plant type first!'); return; }
      if (!selectedImage) { alert('... Please select or capture an image!'); return; }
      const language = document.getElementById('languageSelect').value;
      ...
      loadingSpinner.style.display = 'block';
      resultDisplay.innerHTML = '';
      analyzingPlant.textContent = selectedPlant;
      const formData = new FormData();
      formData.append('image', selectedImage);
      formData.append('language', language);
      formData.append('plant_name', selectedPlant);
      try {
          const response = await fetch('/api/detect-disease', { method: 'POST', body: formData });
          const data = await response.json();
          loadingSpinner.style.display = 'none';
          if (data.success) { ... } else { resultDisplay.innerHTML = `...`; }
      } catch (error) {
          loadingSpinner.style.display = 'none';
          resultDisplay.innerHTML = `...`;
          console.error('Detection error:', error);
      }
  }
  \<close>
\<close>

definition detectDisease :: "platform \<Rightarrow> response \<Rightarrow> handler" where
  "detectDisease P net s =
     (if \<not> truthyPlant (selectedPlant s) then
        (Normal, effect (Alert ([0x26A0, 0xFE0F] @ js '' Please select a plant type first!'')) s)
      else case selectedImage s of
        None \<Rightarrow>
          (Normal, effect (Alert ([0x26A0, 0xFE0F] @ js '' Please select or capture an image!'')) s)
      | Some img \<Rightarrow>
          (case elements s ''languageSelect'' of
             None \<Rightarrow> (Throw, s)
           | Some languageSelect \<Rightarrow>
               let language = value languageSelect;
                   plant = plantText (selectedPlant s)
               in steps
                    [update ''loadingSpinner'' (\<lambda>e. e\<lparr>display := js ''block''\<rparr>),
                     update ''resultDisplay'' (\<lambda>e. e\<lparr>innerHTML := []\<rparr>),
                     update ''analyzingPlant'' (\<lambda>e. e\<lparr>textContent := plant\<rparr>),
                     tryCatch
                       (steps
                          [assign (effect (Fetch POST (js ''/api/detect-disease'')
                             [(js ''image'', FileEntry img),
                              (js ''language'', TextEntry language),
                              (js ''plant_name'', TextEntry plant)])),
                           (\<lambda>s. case net of
                                  NetworkError \<Rightarrow> (Throw, s)
                                | BadJson \<Rightarrow> (Throw, s)
                                | Json data \<Rightarrow>
                                    steps
                                      [update ''loadingSpinner'' (\<lambda>e. e\<lparr>display := js ''none''\<rparr>),
                                       (\<lambda>s. case getProp data ''success'' of
                                              None \<Rightarrow> (Throw, s)
                                            | Some success \<Rightarrow>
                                                if truthy success then showResult P data s
                                                else update ''resultDisplay''
                                                       (\<lambda>e. e\<lparr>innerHTML :=
                                                          resultErrorHTML
                                                            (toString P (property data ''message''))
                                                            (plantText (selectedPlant s))\<rparr>) s)] s)])
                       (steps
                          [update ''loadingSpinner'' (\<lambda>e. e\<lparr>display := js ''none''\<rparr>),
                           update ''resultDisplay'' (\<lambda>e. e\<lparr>innerHTML := detectionFailedHTML\<rparr>),
                           assign (effect (ConsoleError (js ''Detection error:'')))])] s))"

subsection \<open>Weather\<close>

text \<open>
  \<^verbatim>\<open>
  function displayWeather(weatherData, cityName) {
      const weatherDisplay = document.getElementById('weatherDisplay');
      const current = weatherData.current;
      const daily = weatherData.daily;
      const weatherHTML = `... ${current.temperature_2m} ... ${current.relative_humidity_2m}
          ... ${current.wind_speed_10m} ... ${current.precipitation} ...`;
      weatherDisplay.innerHTML = weatherHTML;
      document.getElementById('temperature').value = current.temperature_2m;
      document.getElementById('humidity').value = current.relative_humidity_2m;
      document.getElementById('rainfall').value = daily.precipitation_sum[0] || 0;
      const cropBtn = document.getElementById('cropRecommendBtn');
      if (cropBtn) { cropBtn.disabled = false; }
      const cropDisplay = document.getElementById('cropDisplay');
      if (cropDisplay) { cropDisplay.innerHTML = '...'; }
  }
  \<close>
\<close>

definition weatherHTML :: "jsstring \<Rightarrow> jsstring \<Rightarrow> jsstring \<Rightarrow> jsstring \<Rightarrow> jsstring" where
  "weatherHTML temperature humidity wind precipitation =
       [0x0A] @
       js ''        <div class=\"weather-item\">'' @ [0x0A] @
       js ''            <h3>'' @ temperature @ [0x00B0] @ js ''C</h3>'' @ [0x0A] @
       js ''            <p>Temperature</p>'' @ [0x0A] @
       js ''        </div>'' @ [0x0A] @
       js ''        <div class=\"weather-item\">'' @ [0x0A] @
       js ''            <h3>'' @ humidity @ js ''%</h3>'' @ [0x0A] @
       js ''            <p>Humidity</p>'' @ [0x0A] @
       js ''        </div>'' @ [0x0A] @
       js ''        <div class=\"weather-item\">'' @ [0x0A] @
       js ''            <h3>'' @ wind @ js '' km/h</h3>'' @ [0x0A] @
       js ''            <p>Wind Speed</p>'' @ [0x0A] @
       js ''        </div>'' @ [0x0A] @
       js ''        <div class=\"weather-item\">'' @ [0x0A] @
       js ''            <h3>'' @ precipitation @ js '' mm</h3>'' @ [0x0A] @
       js ''            <p>Precipitation</p>'' @ [0x0A] @
       js ''        </div>'' @ [0x0A] @
       js ''    ''"

definition weatherLoadedHTML :: jsstring where
  "weatherLoadedHTML =
       js ''<p style=\"color: var(--green-primary);\">'' @ [0x2705] @ js '' Weather data loaded! Select soil type and click \"Get Crop Recommendations\"</p>''"

definition displayWeather :: "platform \<Rightarrow> jsvalue \<Rightarrow> jsvalue \<Rightarrow> handler" where
  "displayWeather P weatherData cityName s =
     (case getProp weatherData ''current'' of
        None \<Rightarrow> (Throw, s)
      | Some current \<Rightarrow>
          let daily = property weatherData ''daily'' in
          (case getProp current ''temperature_2m'' of
             None \<Rightarrow> (Throw, s)
           | Some temperature \<Rightarrow>
               steps
                 [update ''weatherDisplay''
                    (\<lambda>e. e\<lparr>innerHTML :=
                       weatherHTML (toString P temperature)
                         (toString P (property current ''relative_humidity_2m''))
                         (toString P (property current ''wind_speed_10m''))
                         (toString P (property current ''precipitation''))\<rparr>),
                  update ''temperature'' (\<lambda>e. e\<lparr>value := domString P temperature\<rparr>),
                  update ''humidity''
                    (\<lambda>e. e\<lparr>value := domString P (property current ''relative_humidity_2m'')\<rparr>),
                  (\<lambda>s. case getProp daily ''precipitation_sum'' of
                         None \<Rightarrow> (Throw, s)
                       | Some precipitationSum \<Rightarrow>
                           (case getIndex0 precipitationSum of
                              None \<Rightarrow> (Throw, s)
                            | Some first \<Rightarrow>
                                update ''rainfall''
                                  (\<lambda>e. e\<lparr>value :=
                                     domString P (if truthy first then first else Number (Fin 0))\<rparr>) s)),
                  updateIfPresent ''cropRecommendBtn'' (\<lambda>e. e\<lparr>disabled := False\<rparr>),
                  updateIfPresent ''cropDisplay'' (\<lambda>e. e\<lparr>innerHTML := weatherLoadedHTML\<rparr>)] s))"

text \<open>
  \<^verbatim>\<open>
  async function getWeather() {
      const city = document.getElementById('cityInput').value.trim();
      const weatherDisplay = document.getElementById('weatherDisplay');
      if (!city || city === 'Detecting location...') {
          alert('... Please enter a city name or use your location!');
          return;
      }
      weatherDisplay.innerHTML = '<p>... Loading weather data...</p>';
      try {
          const response = await fetch(`/api/weather?city=${encodeURIComponent(city)}`);
          const data = await response.json();
          if (data.success) { displayWeather(data.weather, data.city); }
          else { weatherDisplay.innerHTML = `<p style="color: red;">... ${data.message}</p>`; }
      } catch (error) {
          weatherDisplay.innerHTML = '<p style="color: red;">... Error fetching weather data. Please try again.</p>';
          console.error('Weather error:', error);
      }
  }
  \<close>
\<close>

definition getWeather :: "platform \<Rightarrow> response \<Rightarrow> handler" where
  "getWeather P net s =
     (case elements s ''cityInput'' of
        None \<Rightarrow> (Throw, s)
      | Some cityInput \<Rightarrow>
          let city = trim (value cityInput) in
          if city = [] \<or> city = js ''Detecting location...'' then
            (Normal,
             effect (Alert ([0x26A0, 0xFE0F] @ js '' Please enter a city name or use your location!'')) s)
          else
            steps
              [update ''weatherDisplay''
                 (\<lambda>e. e\<lparr>innerHTML := js ''<p>'' @ [0xD83D, 0xDD04] @ js '' Loading weather data...</p>''\<rparr>),
               tryCatch
                 (steps
                    [(\<lambda>s. case encodeURIComponent P city of
                           None \<Rightarrow> (Throw, s)
                         | Some query \<Rightarrow>
                             (Normal, effect (Fetch GET (js ''/api/weather?city='' @ query) []) s)),
                     (\<lambda>s. case net of
                            NetworkError \<Rightarrow> (Throw, s)
                          | BadJson \<Rightarrow> (Throw, s)
                          | Json data \<Rightarrow>
                              (case getProp data ''success'' of
                                 None \<Rightarrow> (Throw, s)
                               | Some success \<Rightarrow>
                                   if truthy success then
                                     displayWeather P (property data ''weather'') (property data ''city'') s
                                   else
                                     update ''weatherDisplay''
                                       (\<lambda>e. e\<lparr>innerHTML :=
                                          js ''<p style=\"color: red;\">'' @ [0x274C] @ js '' '' @
                                          toString P (property data ''message'') @ js ''</p>''\<rparr>) s))])
                 (steps
                    [update ''weatherDisplay''
                       (\<lambda>e. e\<lparr>innerHTML :=
                          js ''<p style=\"color: red;\">'' @ [0x274C] @
                          js '' Error fetching weather data. Please try again.</p>''\<rparr>),
                     assign (effect (ConsoleError (js ''Weather error:'')))])] s)"

subsection \<open>Pages and states used in the examples\<close>

text \<open>\<open>hasElements s ids\<close>: the page of \<open>s\<close> has an element for every id of the list.\<close>

definition hasElements :: "state \<Rightarrow> string list \<Rightarrow> bool" where
  "hasElements s ids = list_all (\<lambda>i. elements s i \<noteq> None) ids"

text \<open>A page with every element the two scripts look up, all properties empty, and the
  state of a freshly loaded page.\<close>

definition blank :: element where
  "blank = \<lparr>value = [], disabled = False, innerHTML = [], textContent = [], display = [],
            opacity = [], pointerEvents = [], classList = [], srcObject = None,
            width = 0, height = 0, videoWidth = 0, videoHeight = 0\<rparr>"

definition dashboard :: "string \<Rightarrow> element option" where
  "dashboard i =
     (if i \<in> set [''plantSelect'', ''imageUploadSection'', ''imageInput'', ''selectedPlantInfo'',
                   ''step1-indicator'', ''step2-indicator'', ''step3-indicator'', ''resultDisplay'',
                   ''imagePreview'', ''detectBtn'', ''cameraVideo'', ''cameraCanvas'',
                   ''startCameraBtn'', ''captureBtn'', ''stopCameraBtn'', ''languageSelect'',
                   ''loadingSpinner'', ''analyzingPlant'', ''cityInput'', ''weatherDisplay'',
                   ''temperature'', ''humidity'', ''rainfall'', ''cropRecommendBtn'', ''cropDisplay'']
      then Some blank else None)"

definition initial :: state where
  "initial = \<lparr>selectedImage = None, selectedPlant = None, cameraStream = None,
              elements = dashboard, guideText = None, endedTracks = {}, events = []\<rparr>"

text \<open>A platform for the examples: no string reads as a number, every number left to the
  platform prints as \<^verbatim>\<open>0.5\<close>, every percentage as \<^verbatim>\<open>80.00\<close> (which is what
  \<^verbatim>\<open>toFixed(2)\<close> gives for the confidences of the examples), and \<^verbatim>\<open>encodeURIComponent\<close>
  escapes nothing.\<close>

definition somePlatform :: platform where
  "somePlatform = \<lparr>stringToNumber = (\<lambda>s. NaN), shortestDigits = (\<lambda>q. js ''0.5''),
                   timesHundredToFixed2 = (\<lambda>n. js ''80.00''), encodeURIComponent = Some\<rparr>"

text \<open>A photo, and the page after a detection for Tomato, the plant menu now showing
  \<open>choice\<close>.\<close>

definition leafPhoto :: jsfile where
  "leafPhoto = \<lparr>fileName = js ''leaf.jpg'', fileType = js ''image/jpeg'', fileBits = Some [0xFF, 0xD8]\<rparr>"

definition analysed :: "jsstring \<Rightarrow> state" where
  "analysed choice =
     initial\<lparr>selectedPlant := Some (js ''Tomato''), selectedImage := Some leafPhoto,
             elements := dashboard
               (''plantSelect'' \<mapsto> blank\<lparr>value := choice\<rparr>,
                ''resultDisplay'' \<mapsto> blank\<lparr>innerHTML := js ''<div class=\"result-success\"></div>''\<rparr>)\<rparr>"

text \<open>The camera running with two tracks, and the same on a page without the preview
  element.\<close>

definition filming :: state where
  "filming =
     initial\<lparr>selectedPlant := Some (js ''Tomato''), cameraStream := Some [0, 1],
             elements := dashboard(''cameraVideo'' \<mapsto> blank\<lparr>srcObject := Some [0, 1]\<rparr>),
             guideText := Some ([0xD83D, 0xDCF8] @ js '' Position Tomato leaf in center'')\<rparr>"

definition filmingWithoutPreview :: state where
  "filmingWithoutPreview = filming\<lparr>elements := (elements filming)(''imagePreview'' := None)\<rparr>"

text \<open>A plant and an image selected, and two answers of the backend.\<close>

definition ready :: state where
  "ready = initial\<lparr>selectedPlant := Some (js ''Tomato''), selectedImage := Some leafPhoto,
                   elements := dashboard(''languageSelect'' \<mapsto> blank\<lparr>value := js ''en''\<rparr>)\<rparr>"

definition modelResponse :: "number \<Rightarrow> jsvalue" where
  "modelResponse confidence =
     Object ((\<lambda>name. Undefined)
       (''success'' := Boolean True, ''plant_name'' := String (js ''Tomato''),
        ''method'' := String (js ''model''), ''confidence'' := Number confidence,
        ''disease_name'' := String (js ''Early blight''),
        ''disease_info'' := String (js ''Remove infected leaves.'')))"

definition failureResponse :: jsvalue where
  "failureResponse =
     Object ((\<lambda>name. Undefined)
       (''success'' := Boolean False, ''message'' := String (js ''Not a leaf'')))"

text \<open>A city typed into the weather form, and a weather snapshot with the given daily
  precipitation sums.\<close>

definition withCity :: "jsstring \<Rightarrow> state" where
  "withCity city = initial\<lparr>elements := dashboard(''cityInput'' \<mapsto> blank\<lparr>value := city\<rparr>)\<rparr>"




subsection \<open>The crop formatter, described without regular expressions\<close>

text \<open>
  Two descriptions of \<^verbatim>\<open>formatCropRecommendations\<close> to compare the code with. The first
  says directly what the three replacements do: first every newline becomes a line break;
  then, in the text with the line breaks in it, every run of digits that is followed by a
  dot and by white space is wrapped, with the dot and the white space, in \<^verbatim>\<open>strong\<close>
  tags, wherever it stands. A line feed behind the dot is no white space any more by then:
  it has become \<^verbatim>\<open><br>\<close>.
\<close>

definition lineBreaks :: "jsstring \<Rightarrow> jsstring" where
  "lineBreaks s = concat (map (\<lambda>c. if c = 0x0A then js ''<br>'' else [c]) s)"

function boldOrdinals :: "jsstring \<Rightarrow> jsstring" where
  "boldOrdinals [] = []"
| "boldOrdinals (x # xs) =
     (case dropWhile digit (x # xs) of
        [] \<Rightarrow> x # boldOrdinals xs
      | d # r \<Rightarrow>
          if digit x \<and> d = 0x2E \<and> takeWhile whiteSpace r \<noteq> [] then
            js ''<strong>'' @ takeWhile digit (x # xs) @ [0x2E] @ takeWhile whiteSpace r @
            js ''</strong>'' @ boldOrdinals (dropWhile whiteSpace r)
          else x # boldOrdinals xs)"
  by pat_completeness auto
termination
proof (relation "measure length")
  fix x :: jschar and xs d r
  assume "dropWhile digit (x # xs) = d # r"
  then have "length (d # r) \<le> length (x # xs)"
    by (metis length_dropWhile_le)
  moreover have "length (dropWhile whiteSpace r) \<le> length r"
    by (rule length_dropWhile_le)
  ultimately show "(dropWhile whiteSpace r, x # xs) \<in> measure length"
    by simp
qed simp_all

text \<open>
  The second follows the words of the specification, ``normalizes blank-line and newline
  sequences to line breaks and bolds leading ordinal markers'': the text is cut into lines,
  an ordinal marker at the start of a line is made bold, and the lines are joined by line
  breaks.
\<close>

fun linesOf :: "jsstring \<Rightarrow> jsstring list" where
  "linesOf [] = [[]]"
| "linesOf (c # s) =
     (if c = 0x0A then [] # linesOf s
      else (case linesOf s of [] \<Rightarrow> [[c]] | l # ls \<Rightarrow> (c # l) # ls))"

definition boldLeadingOrdinal :: "jsstring \<Rightarrow> jsstring" where
  "boldLeadingOrdinal line =
     (case dropWhile digit line of
        [] \<Rightarrow> line
      | d # r \<Rightarrow>
          if takeWhile digit line \<noteq> [] \<and> d = 0x2E \<and> takeWhile whiteSpace r \<noteq> [] then
            js ''<strong>'' @ takeWhile digit line @ [0x2E] @ takeWhile whiteSpace r @
            js ''</strong>'' @ dropWhile whiteSpace r
          else line)"

definition spec_formatCropRecommendations :: "jsstring \<Rightarrow> jsstring" where
  "spec_formatCropRecommendations text =
     js ''<div style=\"line-height: 1.8;\">'' @
     joinWith (js ''<br>'') (map boldLeadingOrdinal (linesOf text)) @ js ''</div>''"

text \<open>The pattern \<^verbatim>\<open>(\d+\.\s+)\<close> and its part behind the digits.\<close>

definition ordinalTail :: regex where
  "ordinalTail = Seq (lit ''.'') (plus (Unit whiteSpace))"

definition ordinalRx :: regex where
  "ordinalRx = Group (Seq (plus (Unit digit)) (Seq (lit ''.'') (plus (Unit whiteSpace))))"


section \<open>Properties\<close>

subsection \<open>Disease detection\<close>

text \<open>
  C1. In every state in which no plant is selected (\<^verbatim>\<open>selectedPlant\<close> is \<^verbatim>\<open>null\<close> or the
  empty string) or no image is selected, \<^verbatim>\<open>detectDisease\<close> completes normally and changes
  nothing but the effects, to which it adds exactly one alert: no request is sent, whatever
  the network would have answered.
\<close>

theorem detectDisease_guard:
  assumes "\<not> truthyPlant (selectedPlant s) \<or> selectedImage s = None"
  shows "detectDisease P net s =
           (Normal, s\<lparr>events := events s @
              [Alert ([0x26A0, 0xFE0F] @
                 js (if truthyPlant (selectedPlant s) then '' Please select or capture an image!''
                     else '' Please select a plant type first!''))]\<rparr>)"
  using assms by (auto simp add: detectDisease_def effect_def)

theorem detectDisease_guard_witness:
  "selectedPlant initial = None \<and>
   detectDisease somePlatform NetworkError initial =
     (Normal, initial\<lparr>events := [Alert ([0x26A0, 0xFE0F] @ js '' Please select a plant type first!'')]\<rparr>)"
  using detectDisease_guard [of initial somePlatform NetworkError]
  by (simp add: initial_def truthyPlant_def)

lemma ready_facts:
  "truthyPlant (selectedPlant ready)" "selectedImage ready \<noteq> None"
  "hasElements ready [''languageSelect'', ''loadingSpinner'', ''resultDisplay'', ''analyzingPlant'']"
  "hasElements ready [''languageSelect'', ''loadingSpinner'', ''resultDisplay'', ''analyzingPlant'',
     ''step3-indicator'']"
  "selectedPlant ready = Some (js ''Tomato'')"
  by (simp_all add: ready_def initial_def truthyPlant_def hasElements_def dashboard_def js_def)




text \<open>
  C10. On a page that has the elements the handler uses before it sends the request
  (\<^verbatim>\<open>languageSelect\<close>, \<^verbatim>\<open>loadingSpinner\<close>, \<^verbatim>\<open>resultDisplay\<close>, \<^verbatim>\<open>analyzingPlant\<close>), every run of
  \<^verbatim>\<open>detectDisease\<close> that passes the plant-and-image guard completes normally with the
  loading spinner hidden, whatever comes back: a body of any shape (success envelope,
  failure envelope, or anything else), a body that is no JSON, or no answer at all.
\<close>

theorem detectDisease_hides_spinner:
  assumes "truthyPlant (selectedPlant s)" and "selectedImage s \<noteq> None"
    and "hasElements s [''languageSelect'', ''loadingSpinner'', ''resultDisplay'', ''analyzingPlant'']"
  shows "fst (detectDisease P net s) = Normal \<and>
         map_option display (elements (snd (detectDisease P net s)) ''loadingSpinner'')
           = Some (js ''none'')"
  using assms
  by (auto simp add: detectDisease_def showResult_def hasElements_def update_def assign_def
        effect_def tryCatch_def Let_def
        split: response.splits option.splits jsvalue.splits)

theorem detectDisease_hides_spinner_witness:
  "truthyPlant (selectedPlant ready) \<and>
   fst (detectDisease somePlatform (Json (modelResponse (Fin (9 / 10)))) ready) = Normal \<and>
   map_option display
     (elements (snd (detectDisease somePlatform (Json (modelResponse (Fin (9 / 10)))) ready))
        ''loadingSpinner'') = Some (js ''none'') \<and>
   fst (detectDisease somePlatform (Json failureResponse) ready) = Normal \<and>
   map_option display
     (elements (snd (detectDisease somePlatform (Json failureResponse) ready)) ''loadingSpinner'')
     = Some (js ''none'') \<and>
   fst (detectDisease somePlatform NetworkError ready) = Normal \<and>
   map_option display
     (elements (snd (detectDisease somePlatform NetworkError ready)) ''loadingSpinner'')
     = Some (js ''none'') \<and>
   fst (detectDisease somePlatform BadJson ready) = Normal \<and>
   map_option display
     (elements (snd (detectDisease somePlatform BadJson ready)) ''loadingSpinner'')
     = Some (js ''none'')"
  using detectDisease_hides_spinner [OF ready_facts(1) ready_facts(2) ready_facts(3),
      of somePlatform "Json (modelResponse (Fin (9 / 10)))"]
    detectDisease_hides_spinner [OF ready_facts(1) ready_facts(2) ready_facts(3),
      of somePlatform "Json failureResponse"]
    detectDisease_hides_spinner [OF ready_facts(1) ready_facts(2) ready_facts(3),
      of somePlatform NetworkError]
    detectDisease_hides_spinner [OF ready_facts(1) ready_facts(2) ready_facts(3),
      of somePlatform BadJson]
    ready_facts(1)
  by simp

subsection \<open>The formatters\<close>

text \<open>
  C3. \<^verbatim>\<open>formatDiseaseInfo\<close> at the input \<^verbatim>\<open>"**Bold**\n- a\n- b"\<close>. The result has
  \<^verbatim>\<open>Bold\<close> in a \<^verbatim>\<open>strong\<close> tag, a line break and one \<^verbatim>\<open>ul\<close> list, but the list wraps a
  single item, for \<^verbatim>\<open>a\<close>: the pattern for a bullet asks for a line break behind it, and the
  last line has none, so \<^verbatim>\<open>- b\<close> stays as it is.
\<close>

theorem formatDiseaseInfo_example:
  "formatDiseaseInfo (js (''**Bold**'' @ [CHR 0x0A] @ ''- a'' @ [CHR 0x0A] @ ''- b''))
     = js ''<strong>Bold</strong><br><ul><li>a</li></ul>- b''"
  by (simp add: formatDiseaseInfo_def replaceAll.simps rmatch.simps(5) lit_def plus_def dot_def
        js_def lineTerminator_def)

text \<open>With a newline behind the last bullet both bullets become items of the one list.\<close>

lemma formatDiseaseInfo_terminated:
  "formatDiseaseInfo (js (''**Bold**'' @ [CHR 0x0A] @ ''- a'' @ [CHR 0x0A] @ ''- b'' @ [CHR 0x0A]))
     = js ''<strong>Bold</strong><br><ul><li>a</li><li>b</li></ul>''"
  by (simp add: formatDiseaseInfo_def replaceAll.simps rmatch.simps(5) lit_def plus_def dot_def
        js_def lineTerminator_def)

text \<open>The matcher on a starred character class.\<close>

lemma star_unit_Nil: "rmatch (Star g (Unit p)) (c, []) = [(c, [])]"
  by (simp add: rmatch.simps(5))

lemma star_unit_Cons:
  "rmatch (Star g (Unit p)) (c, x # xs) =
     (if p x then
        (if g then rmatch (Star g (Unit p)) (c, xs) @ [(c, x # xs)]
         else (c, x # xs) # rmatch (Star g (Unit p)) (c, xs))
      else [(c, x # xs)])"
  by (subst rmatch.simps(5)) simp

text \<open>A greedy starred class in front of a pattern that cannot start with a character of
  the class: backtracking into the star never helps, the pattern matches behind the longest
  run or not at all.\<close>

lemma star_then:
  assumes "\<And>c t. t \<noteq> [] \<Longrightarrow> p (hd t) \<Longrightarrow> rmatch q (c, t) = []"
  shows "concat (map (rmatch q) (rmatch (Star True (Unit p)) (c, s))) = rmatch q (c, dropWhile p s)"
proof (induction s)
  case Nil
  show ?case by (simp add: star_unit_Nil)
next
  case (Cons x xs)
  show ?case
  proof (cases "p x")
    case True
    then have "rmatch q (c, x # xs) = []"
      using assms [of "x # xs" c] by simp
    with True Cons show ?thesis
      by (simp add: star_unit_Cons)
  next
    case False
    then show ?thesis
      by (simp add: star_unit_Cons)
  qed
qed

lemma star_first:
  "\<exists>rest. rmatch (Star True (Unit p)) (c, s) = (c, dropWhile p s) # rest"
proof (induction s)
  case Nil
  show ?case by (simp add: star_unit_Nil)
next
  case (Cons x xs)
  then show ?case
    by (auto simp add: star_unit_Cons)
qed

text \<open>The pattern \<^verbatim>\<open>(\d+\.\s+)\<close>.\<close>

lemma digit_not_dot: "digit d \<Longrightarrow> d \<noteq> 0x2E"
  by (auto simp add: digit_def)

lemma ordinalTail_match:
  "rmatch ordinalTail (c, t) =
     (case t of
        d # w # r \<Rightarrow>
          if d = 0x2E \<and> whiteSpace w then rmatch (Star True (Unit whiteSpace)) (c, r) else []
      | _ \<Rightarrow> [])"
  by (simp add: ordinalTail_def lit_def plus_def split: list.splits)

lemma ordinalTail_digit: "t \<noteq> [] \<Longrightarrow> digit (hd t) \<Longrightarrow> rmatch ordinalTail (c, t) = []"
  by (cases t) (auto simp add: ordinalTail_match digit_not_dot split: list.splits)

lemma ordinal_body_match:
  "rmatch (Seq (plus (Unit digit)) ordinalTail) (c, s) =
     (case s of
        [] \<Rightarrow> []
      | x # xs \<Rightarrow> if digit x then rmatch ordinalTail (c, dropWhile digit xs) else [])"
proof (cases s)
  case Nil
  then show ?thesis by (simp add: plus_def)
next
  case (Cons x xs)
  have "concat (map (rmatch ordinalTail) (rmatch (Star True (Unit digit)) (c, xs)))
          = rmatch ordinalTail (c, dropWhile digit xs)"
    by (rule star_then) (rule ordinalTail_digit)
  with Cons show ?thesis
    by (simp add: plus_def)
qed

lemma ordinalRx_match:
  "rmatch ordinalRx (c, s) =
     map (\<lambda>(cap', r). (Some (take (length s - length r) s), r))
       (rmatch (Seq (plus (Unit digit)) ordinalTail) (c, s))"
  unfolding ordinalRx_def ordinalTail_def by (simp only: rmatch.simps(4))

lemma take_prefix: "s = a @ b \<Longrightarrow> take (length s - length b) s = a"
  by simp

lemma ordinal_no_match:
  assumes "\<not> (\<exists>d r. dropWhile digit (x # xs) = d # r \<and> digit x \<and> d = 0x2E
                  \<and> takeWhile whiteSpace r \<noteq> [])"
  shows "rmatch ordinalRx (None, x # xs) = []"
proof -
  have "rmatch (Seq (plus (Unit digit)) ordinalTail) (None, x # xs) = []"
    unfolding ordinal_body_match ordinalTail_match
    using assms by (auto split: list.splits if_splits)
  then show ?thesis
    unfolding ordinalRx_match by simp
qed

lemma ordinal_first_match:
  assumes "dropWhile digit (x # xs) = d # r" and "digit x" and "d = 0x2E"
    and "takeWhile whiteSpace r \<noteq> []"
  shows "\<exists>rest. rmatch ordinalRx (None, x # xs) =
           (Some (takeWhile digit (x # xs) @ [0x2E] @ takeWhile whiteSpace r),
            dropWhile whiteSpace r) # rest"
proof -
  from assms(4) obtain w r' where r: "r = w # r'" and w: "whiteSpace w"
    by (cases r) (auto split: if_splits)
  from assms(1,2) have tail: "dropWhile digit xs = d # w # r'"
    by (simp add: r)
  obtain rest where star:
    "rmatch (Star True (Unit whiteSpace)) (None, r') = (None, dropWhile whiteSpace r') # rest"
    using star_first by blast
  have body: "rmatch (Seq (plus (Unit digit)) ordinalTail) (None, x # xs) =
                (None, dropWhile whiteSpace r') # rest"
    unfolding ordinal_body_match ordinalTail_match
    using assms(2,3) tail w star by simp
  have whole: "x # xs = (takeWhile digit (x # xs) @ [0x2E] @ takeWhile whiteSpace r)
                 @ dropWhile whiteSpace r"
  proof -
    have "(takeWhile digit (x # xs) @ [0x2E] @ takeWhile whiteSpace r) @ dropWhile whiteSpace r
            = takeWhile digit (x # xs) @ (d # r)"
      using assms(3) by simp
    also have "\<dots> = takeWhile digit (x # xs) @ dropWhile digit (x # xs)"
      unfolding assms(1) ..
    also have "\<dots> = x # xs"
      by (rule takeWhile_dropWhile_id)
    finally show ?thesis by (rule sym)
  qed
  have cap: "take (length (x # xs) - length (dropWhile whiteSpace r)) (x # xs) =
               takeWhile digit (x # xs) @ [0x2E] @ takeWhile whiteSpace r"
    using take_prefix [OF whole] by simp
  have same: "dropWhile whiteSpace r' = dropWhile whiteSpace r"
    using r w by simp
  have "rmatch ordinalRx (None, x # xs) =
          map (\<lambda>(cap', rest). (Some (take (length (x # xs) - length rest) (x # xs)), rest))
            ((None, dropWhile whiteSpace r') # rest)"
    unfolding ordinalRx_match body ..
  then show ?thesis
    using cap same by simp
qed

lemma replaceAll_ordinals:
  "replaceAll ordinalRx [Text (js ''<strong>''), Group1, Text (js ''</strong>'')] s = boldOrdinals s"
proof (induction s rule: boldOrdinals.induct)
  case 1
  show ?case
    by (subst replaceAll.simps) (simp add: ordinalRx_def plus_def lit_def)
next
  case (2 x xs)
  show ?case
  proof (cases "\<exists>d r. dropWhile digit (x # xs) = d # r \<and> digit x \<and> d = 0x2E
                   \<and> takeWhile whiteSpace r \<noteq> []")
    case True
    then obtain d r where m: "dropWhile digit (x # xs) = d # r" "digit x" "d = 0x2E"
        "takeWhile whiteSpace r \<noteq> []"
      by blast
    obtain rest where first: "rmatch ordinalRx (None, x # xs) =
           (Some (takeWhile digit (x # xs) @ [0x2E] @ takeWhile whiteSpace r),
            dropWhile whiteSpace r) # rest"
      using ordinal_first_match [OF m] by blast
    have "length (d # r) \<le> length (x # xs)"
      by (metis m(1) length_dropWhile_le)
    moreover have "length (dropWhile whiteSpace r) \<le> length r"
      by (rule length_dropWhile_le)
    ultimately have shorter: "length (dropWhile whiteSpace r) < length (x # xs)"
      by simp
    have ih: "replaceAll ordinalRx [Text (js ''<strong>''), Group1, Text (js ''</strong>'')]
                (dropWhile whiteSpace r) = boldOrdinals (dropWhile whiteSpace r)"
      using "2.IH"(2) [OF m(1)] m by simp
    show ?thesis
      using first shorter ih m
      by (subst replaceAll.simps) simp
  next
    case False
    then have none: "rmatch ordinalRx (None, x # xs) = []"
      by (rule ordinal_no_match)
    have ih: "replaceAll ordinalRx [Text (js ''<strong>''), Group1, Text (js ''</strong>'')] xs
                = boldOrdinals xs"
    proof (cases "dropWhile digit (x # xs)")
      case Nil
      then show ?thesis using "2.IH"(1) by simp
    next
      case (Cons d r)
      then show ?thesis using "2.IH"(3) [OF Cons] False by simp
    qed
    show ?thesis
      using none ih False
      by (subst replaceAll.simps) (auto split: list.splits)
  qed
qed

text \<open>The two newline patterns.\<close>

lemma lineBreaks_append: "lineBreaks (a @ b) = lineBreaks a @ lineBreaks b"
  by (simp add: lineBreaks_def)

lemma lineBreaks_Cons:
  "lineBreaks (x # xs) = (if x = 0x0A then js ''<br>'' else [x]) @ lineBreaks xs"
  by (simp add: lineBreaks_def)

lemma replaceAll_newline:
  "replaceAll (lit [CHR 0x0A]) [Text (js ''<br>'')] s = lineBreaks s"
proof (induction s)
  case Nil
  show ?case
    by (subst replaceAll.simps) (simp add: lit_def lineBreaks_def)
next
  case (Cons x xs)
  then show ?case
    by (subst replaceAll.simps) (simp add: lit_def lineBreaks_Cons)
qed

lemma blank_line_match:
  "rmatch (lit [CHR 0x0A, CHR 0x0A]) (c, s) =
     (case s of x # y # r \<Rightarrow> if x = 0x0A \<and> y = 0x0A then [(c, r)] else [] | _ \<Rightarrow> [])"
  by (simp add: lit_def split: list.splits)

lemma lineBreaks_blank_lines:
  "lineBreaks (replaceAll (lit [CHR 0x0A, CHR 0x0A]) [Text (js ''<br><br>'')] s) = lineBreaks s"
proof (induction s rule: length_induct)
  case (1 s)
  show ?case
  proof (cases "\<exists>r. s = 0x0A # 0x0A # r")
    case True
    then obtain r where s: "s = 0x0A # 0x0A # r" by blast
    have "lineBreaks (replaceAll (lit [CHR 0x0A, CHR 0x0A]) [Text (js ''<br><br>'')] r)
            = lineBreaks r"
      using 1 s by simp
    then show ?thesis
      unfolding s
      by (subst replaceAll.simps)
        (simp add: blank_line_match lineBreaks_append lineBreaks_Cons js_def)
  next
    case False
    show ?thesis
    proof (cases s)
      case Nil
      then show ?thesis
        by (subst replaceAll.simps) (simp add: blank_line_match)
    next
      case (Cons x xs)
      have "lineBreaks (replaceAll (lit [CHR 0x0A, CHR 0x0A]) [Text (js ''<br><br>'')] xs)
              = lineBreaks xs"
        using 1 Cons by simp
      then show ?thesis
        using False unfolding Cons
        by (subst replaceAll.simps)
          (auto simp add: blank_line_match lineBreaks_Cons split: list.splits)
    qed
  qed
qed

text \<open>
  C8, as the code has it. For every input string, \<^verbatim>\<open>formatCropRecommendations\<close> replaces
  every newline, in a blank line or alone, by a line break; then, in the text with the line
  breaks in it, it makes bold every run of digits that is followed by a dot and white space,
  together with the dot and the white space, wherever it stands and not only at the start
  of a line; and it wraps the result in the line-height container. The white space behind
  the dot is white space other than a line feed: a marker that ends its line (digits, dot,
  newline) is followed by \<^verbatim>\<open><br>\<close> when the markers are sought, and stays as it is.
\<close>

theorem formatCropRecommendations_bolds_every_ordinal:
  "formatCropRecommendations text =
     js ''<div style=\"line-height: 1.8;\">'' @ boldOrdinals (lineBreaks text) @ js ''</div>''"
proof -
  have "replaceAll (lit [CHR 0x0A]) [Text (js ''<br>'')]
          (replaceAll (lit [CHR 0x0A, CHR 0x0A]) [Text (js ''<br><br>'')] text) = lineBreaks text"
    by (simp only: replaceAll_newline lineBreaks_blank_lines)
  then show ?thesis
    using replaceAll_ordinals [of "lineBreaks text"]
    by (simp add: formatCropRecommendations_def ordinalRx_def)
qed

text \<open>A marker at the end of its line is not made bold.\<close>

lemma formatCropRecommendations_line_end:
  "formatCropRecommendations (js ''1.'' @ [0x0A] @ js ''Rice'')
     = js ''<div style=\"line-height: 1.8;\">1.<br>Rice</div>''"
  by (simp add: formatCropRecommendations_def replaceAll.simps rmatch.simps(5) lit_def plus_def
        js_def digit_def whiteSpace_def lineTerminator_def)

text \<open>
  C8 as stated fails: in \<^verbatim>\<open>Sow by day 15. Water daily.\<close> the number that ends the first
  sentence is no ordinal marker at the start of a line, and the code makes it bold all the
  same, where the reading of the specification leaves the line as it is.
\<close>

theorem formatCropRecommendations_counterexample:
  "formatCropRecommendations (js ''Sow by day 15. Water daily.'')
     = js ''<div style=\"line-height: 1.8;\">Sow by day <strong>15. </strong>Water daily.</div>'' \<and>
   spec_formatCropRecommendations (js ''Sow by day 15. Water daily.'')
     = js ''<div style=\"line-height: 1.8;\">Sow by day 15. Water daily.</div>'' \<and>
   formatCropRecommendations (js ''Sow by day 15. Water daily.'')
     \<noteq> spec_formatCropRecommendations (js ''Sow by day 15. Water daily.'')"
  by (simp add: formatCropRecommendations_def spec_formatCropRecommendations_def
        boldLeadingOrdinal_def replaceAll.simps rmatch.simps(5) lit_def plus_def js_def
        digit_def whiteSpace_def lineTerminator_def)

subsection \<open>Weather\<close>

lemma trim_whiteSpace:
  assumes "list_all whiteSpace s"
  shows "trim s = []"
proof -
  have front: "dropWhile whiteSpace s = []"
    using assms by (induction s) simp_all
  show ?thesis
    unfolding trim_def front by simp
qed

lemma trim_placeholder: "trim (js ''Detecting location...'') = js ''Detecting location...''"
  by (simp add: trim_def js_def whiteSpace_def lineTerminator_def)

text \<open>
  C4. When the city input holds the empty string, white space only, or the placeholder
  \<^verbatim>\<open>Detecting location...\<close>, \<^verbatim>\<open>getWeather\<close> completes normally and changes nothing but
  the effects, to which it adds exactly one alert: no request is sent.
\<close>

theorem getWeather_rejects_blank_city:
  assumes "elements s ''cityInput'' = Some cityInput"
    and "list_all whiteSpace (value cityInput) \<or> value cityInput = js ''Detecting location...''"
  shows "getWeather P net s =
           (Normal, s\<lparr>events := events s @
              [Alert ([0x26A0, 0xFE0F] @ js '' Please enter a city name or use your location!'')]\<rparr>)"
  using assms
  by (auto simp add: getWeather_def effect_def trim_whiteSpace trim_placeholder)

theorem getWeather_rejects_blank_city_witness:
  "getWeather somePlatform (Json failureResponse) (withCity []) =
     (Normal, (withCity [])\<lparr>events :=
        [Alert ([0x26A0, 0xFE0F] @ js '' Please enter a city name or use your location!'')]\<rparr>) \<and>
   getWeather somePlatform (Json failureResponse) (withCity (js ''  '' @ [0x09, 0x0A])) =
     (Normal, (withCity (js ''  '' @ [0x09, 0x0A]))\<lparr>events :=
        [Alert ([0x26A0, 0xFE0F] @ js '' Please enter a city name or use your location!'')]\<rparr>) \<and>
   getWeather somePlatform (Json failureResponse) (withCity (js ''Detecting location...'')) =
     (Normal, (withCity (js ''Detecting location...''))\<lparr>events :=
        [Alert ([0x26A0, 0xFE0F] @ js '' Please enter a city name or use your location!'')]\<rparr>)"
proof -
  have input: "elements (withCity c) ''cityInput'' = Some (blank\<lparr>value := c\<rparr>)" for c
    by (simp add: withCity_def initial_def)
  have none: "events (withCity c) = []" for c
    by (simp add: withCity_def initial_def)
  have blanks: "list_all whiteSpace (js ''  '' @ [0x09, 0x0A])"
    by (simp add: js_def whiteSpace_def lineTerminator_def)
  show ?thesis
    using getWeather_rejects_blank_city [OF input, of "[]" somePlatform "Json failureResponse"]
      getWeather_rejects_blank_city [OF input, of "js ''  '' @ [0x09, 0x0A]" somePlatform
        "Json failureResponse"]
      getWeather_rejects_blank_city [OF input, of "js ''Detecting location...''" somePlatform
        "Json failureResponse"]
      blanks none
    by simp
qed





subsection \<open>Plant selection\<close>

text \<open>
  C5, as the code has it. On a page with the elements of the wizard, an invocation of
  \<^verbatim>\<open>plantSelected\<close> with a non-empty plant value (the same value as before or another)
  completes normally, resets the selected image to \<^verbatim>\<open>null\<close>, empties the result display
  and disables the detect button. With the empty value it leaves the selected image, the
  result display and the detect button as they were.
\<close>

theorem plantSelected_resets:
  assumes "elements s ''plantSelect'' = Some plantSelect"
    and "hasElements s [''imageUploadSection'', ''imageInput'', ''selectedPlantInfo'',
           ''step1-indicator'', ''step2-indicator'', ''resultDisplay'', ''imagePreview'', ''detectBtn'']"
  shows "(value plantSelect \<noteq> [] \<longrightarrow>
            fst (plantSelected s) = Normal \<and>
            selectedImage (snd (plantSelected s)) = None \<and>
            map_option innerHTML (elements (snd (plantSelected s)) ''resultDisplay'') = Some [] \<and>
            map_option disabled (elements (snd (plantSelected s)) ''detectBtn'') = Some True) \<and>
         (value plantSelect = [] \<longrightarrow>
            selectedImage (snd (plantSelected s)) = selectedImage s \<and>
            elements (snd (plantSelected s)) ''resultDisplay'' = elements s ''resultDisplay'' \<and>
            elements (snd (plantSelected s)) ''detectBtn'' = elements s ''detectBtn'')"
  using assms
  by (auto simp add: plantSelected_def hasElements_def update_def assign_def Let_def)

theorem plantSelected_resets_witness:
  "value (blank\<lparr>value := js ''Tomato''\<rparr>) \<noteq> [] \<and>
   fst (plantSelected (analysed (js ''Tomato''))) = Normal \<and>
   selectedImage (snd (plantSelected (analysed (js ''Tomato'')))) = None \<and>
   map_option innerHTML (elements (snd (plantSelected (analysed (js ''Tomato'')))) ''resultDisplay'')
     = Some [] \<and>
   map_option disabled (elements (snd (plantSelected (analysed (js ''Tomato'')))) ''detectBtn'')
     = Some True \<and>
   selectedImage (snd (plantSelected (analysed []))) = Some leafPhoto"
  using plantSelected_resets [of "analysed (js ''Tomato'')" "blank\<lparr>value := js ''Tomato''\<rparr>"]
    plantSelected_resets [of "analysed []" "blank\<lparr>value := []\<rparr>"]
  by (simp add: analysed_def initial_def dashboard_def hasElements_def js_def)

text \<open>
  C5 as stated fails for the change to the empty value: after a detection for Tomato, with
  the photo still selected, choosing no plant leaves the photo selected, the old result on
  display and the detect button enabled.
\<close>

theorem plantSelected_counterexample:
  "fst (plantSelected (analysed [])) = Normal \<and>
   selectedPlant (snd (plantSelected (analysed []))) = Some [] \<and>
   selectedImage (snd (plantSelected (analysed []))) = Some leafPhoto \<and>
   map_option innerHTML (elements (snd (plantSelected (analysed []))) ''resultDisplay'')
     = Some (js ''<div class=\"result-success\"></div>'') \<and>
   map_option disabled (elements (snd (plantSelected (analysed []))) ''detectBtn'') = Some False"
  by (simp add: plantSelected_def analysed_def initial_def dashboard_def blank_def update_def
        assign_def removeClass_def)

subsection \<open>The camera\<close>

text \<open>
  C6, as the code has it. When the callback of \<^verbatim>\<open>toBlob\<close> runs on a page that has the
  preview, the detect button and the two step indicators, so that the rendering of the
  preview and the updates behind it complete, the file \<^verbatim>\<open><plant>_<timestamp>.jpg\<close> is the
  selected image, \<^verbatim>\<open>cameraStream\<close> is \<^verbatim>\<open>null\<close> and every track of the stream has been
  stopped, whatever the frame and the data URL are.
\<close>

theorem captureImage_toBlob_stops:
  assumes "hasElements s [''imagePreview'', ''detectBtn'', ''step2-indicator'', ''step3-indicator'']"
  shows "selectedImage (snd (captureImage_toBlob blob now dataURL s)) =
           Some \<lparr>fileName = plantText (selectedPlant s) @ js ''_'' @ decimal now @ js ''.jpg'',
                 fileType = js ''image/jpeg'', fileBits = blob\<rparr> \<and>
         cameraStream (snd (captureImage_toBlob blob now dataURL s)) = None \<and>
         endedTracks (snd (captureImage_toBlob blob now dataURL s)) =
           endedTracks s \<union> (case cameraStream s of None \<Rightarrow> {} | Some tracks \<Rightarrow> set tracks)"
  using assms
  by (auto simp add: captureImage_toBlob_def hasElements_def stopCamera_def update_def
        updateIfPresent_def assign_def Let_def split: option.splits)

theorem captureImage_toBlob_stops_witness:
  "hasElements filming [''imagePreview'', ''detectBtn'', ''step2-indicator'', ''step3-indicator''] \<and>
   selectedImage
     (snd (captureImage_toBlob (Some [0xFF, 0xD8]) 1700000000000 (js ''data:image/png;base64,AAAA'')
             filming)) =
     Some \<lparr>fileName = js ''Tomato_1700000000000.jpg'', fileType = js ''image/jpeg'',
           fileBits = Some [0xFF, 0xD8]\<rparr> \<and>
   cameraStream
     (snd (captureImage_toBlob (Some [0xFF, 0xD8]) 1700000000000 (js ''data:image/png;base64,AAAA'')
             filming)) = None \<and>
   endedTracks
     (snd (captureImage_toBlob (Some [0xFF, 0xD8]) 1700000000000 (js ''data:image/png;base64,AAAA'')
             filming)) = {0, 1}"
proof -
  have page: "hasElements filming [''imagePreview'', ''detectBtn'', ''step2-indicator'',
      ''step3-indicator'']"
    by (simp add: hasElements_def filming_def initial_def dashboard_def)
  have vars: "selectedPlant filming = Some (js ''Tomato'')" "cameraStream filming = Some [0, 1]"
    "endedTracks filming = {}"
    by (simp_all add: filming_def initial_def)
  have name: "js ''Tomato'' @ js ''_'' @ decimal 1700000000000 @ js ''.jpg''
                = js ''Tomato_1700000000000.jpg''"
    by (simp add: decimal.simps js_def)
  show ?thesis
    using captureImage_toBlob_stops [OF page, of "Some [0xFF, 0xD8]" 1700000000000
        "js ''data:image/png;base64,AAAA''"] page vars name
    by (simp add: plantText_def)
qed

text \<open>
  C6 as stated fails when the rendering of the preview does not succeed: on a page without
  the preview element the callback stores the file, throws at the preview, and never
  reaches \<^verbatim>\<open>stopCamera\<close>; the stream stays and none of its tracks is stopped.
\<close>

theorem captureImage_toBlob_counterexample:
  "fst (captureImage_toBlob (Some [0xFF, 0xD8]) 1700000000000 (js ''data:image/png;base64,AAAA'')
          filmingWithoutPreview) = Throw \<and>
   selectedImage
     (snd (captureImage_toBlob (Some [0xFF, 0xD8]) 1700000000000 (js ''data:image/png;base64,AAAA'')
             filmingWithoutPreview)) =
     Some \<lparr>fileName = js ''Tomato_1700000000000.jpg'', fileType = js ''image/jpeg'',
           fileBits = Some [0xFF, 0xD8]\<rparr> \<and>
   cameraStream
     (snd (captureImage_toBlob (Some [0xFF, 0xD8]) 1700000000000 (js ''data:image/png;base64,AAAA'')
             filmingWithoutPreview)) = Some [0, 1] \<and>
   endedTracks
     (snd (captureImage_toBlob (Some [0xFF, 0xD8]) 1700000000000 (js ''data:image/png;base64,AAAA'')
             filmingWithoutPreview)) = {}"
  by (simp add: captureImage_toBlob_def filmingWithoutPreview_def filming_def initial_def
        dashboard_def update_def assign_def plantText_def decimal.simps js_def)

lemma stopCamera_twice: "stopCamera (snd (stopCamera s)) = stopCamera s"
  by (auto simp add: stopCamera_def update_def updateIfPresent_def assign_def
        split: option.splits)

lemma stopCamera_stream:
  "cameraStream (snd (stopCamera s)) = None \<and>
   endedTracks (snd (stopCamera s)) =
     endedTracks s \<union> (case cameraStream s of None \<Rightarrow> {} | Some tracks \<Rightarrow> set tracks)"
  by (auto simp add: stopCamera_def update_def updateIfPresent_def assign_def
        split: option.splits)

lemma stopCamera_page:
  assumes "elements s ''cameraVideo'' \<noteq> None"
  shows "fst (stopCamera s) = Normal \<and>
     map_option srcObject (elements (snd (stopCamera s)) ''cameraVideo'') = Some None \<and>
     map_option display (elements (snd (stopCamera s)) ''startCameraBtn'')
       = map_option (\<lambda>e. js ''inline-block'') (elements s ''startCameraBtn'') \<and>
     map_option display (elements (snd (stopCamera s)) ''captureBtn'')
       = map_option (\<lambda>e. js ''none'') (elements s ''captureBtn'') \<and>
     map_option display (elements (snd (stopCamera s)) ''stopCameraBtn'')
       = map_option (\<lambda>e. js ''none'') (elements s ''stopCameraBtn'') \<and>
     guideText (snd (stopCamera s)) = None"
  using assms
  by (auto simp add: stopCamera_def update_def updateIfPresent_def assign_def
        split: option.splits)

text \<open>
  C7. \<^verbatim>\<open>stopCamera\<close> is idempotent: from any state, a second call right after the first
  completes as the first did and leaves the state of the first. After a call
  \<^verbatim>\<open>cameraStream\<close> is \<^verbatim>\<open>null\<close> and the tracks of the stream, if there was one, are stopped
  (with no stream, no track is touched). On a page with the video element the call
  completes normally, the video has no source, the start button is shown and the capture
  and stop buttons are hidden where the page has them, and the guide overlay is gone.
\<close>

theorem stopCamera_idempotent:
  "stopCamera (snd (stopCamera s)) = stopCamera s \<and>
   cameraStream (snd (stopCamera s)) = None \<and>
   endedTracks (snd (stopCamera s)) =
     endedTracks s \<union> (case cameraStream s of None \<Rightarrow> {} | Some tracks \<Rightarrow> set tracks) \<and>
   (elements s ''cameraVideo'' \<noteq> None \<longrightarrow>
     fst (stopCamera s) = Normal \<and>
     map_option srcObject (elements (snd (stopCamera s)) ''cameraVideo'') = Some None \<and>
     map_option display (elements (snd (stopCamera s)) ''startCameraBtn'')
       = map_option (\<lambda>e. js ''inline-block'') (elements s ''startCameraBtn'') \<and>
     map_option display (elements (snd (stopCamera s)) ''captureBtn'')
       = map_option (\<lambda>e. js ''none'') (elements s ''captureBtn'') \<and>
     map_option display (elements (snd (stopCamera s)) ''stopCameraBtn'')
       = map_option (\<lambda>e. js ''none'') (elements s ''stopCameraBtn'') \<and>
     guideText (snd (stopCamera s)) = None)"
  using stopCamera_twice [of s] stopCamera_stream [of s] stopCamera_page [of s] by blast

theorem stopCamera_idempotent_witness:
  "stopCamera (snd (stopCamera filming)) = stopCamera filming \<and>
   cameraStream (snd (stopCamera filming)) = None \<and>
   endedTracks (snd (stopCamera filming)) = {0, 1} \<and>
   fst (stopCamera filming) = Normal \<and>
   map_option srcObject (elements (snd (stopCamera filming)) ''cameraVideo'') = Some None \<and>
   map_option display (elements (snd (stopCamera filming)) ''startCameraBtn'')
     = Some (js ''inline-block'') \<and>
   map_option display (elements (snd (stopCamera filming)) ''captureBtn'') = Some (js ''none'') \<and>
   map_option display (elements (snd (stopCamera filming)) ''stopCameraBtn'') = Some (js ''none'') \<and>
   guideText (snd (stopCamera filming)) = None \<and>
   fst (stopCamera initial) = Normal \<and>
   endedTracks (snd (stopCamera initial)) = {}"
proof -
  have video: "elements filming ''cameraVideo'' \<noteq> None" "elements initial ''cameraVideo'' \<noteq> None"
    by (simp_all add: filming_def initial_def dashboard_def)
  have stream: "cameraStream filming = Some [0, 1]" "endedTracks filming = {}"
    "cameraStream initial = None" "endedTracks initial = {}"
    by (simp_all add: filming_def initial_def)
  have buttons: "elements filming ''startCameraBtn'' = Some blank"
    "elements filming ''captureBtn'' = Some blank" "elements filming ''stopCameraBtn'' = Some blank"
    by (simp_all add: filming_def initial_def dashboard_def)
  show ?thesis
    using stopCamera_idempotent [of filming] stopCamera_idempotent [of initial]
      video stream buttons
    by simp
qed

end
